theory Spec2Isabelle
  imports Complex_Main
begin

section \<open>The JavaScript values the accessory handles\<close>

text \<open>
  \<^verbatim>\<open>src/src/accessory.ts\<close> is TypeScript, and its casts (\<^verbatim>\<open>as number\<close>, \<^verbatim>\<open>as boolean\<close>)
  are erased by the compiler: at run time the five mirror fields hold whatever value was
  assigned. The model therefore keeps the mirror as JavaScript values.

  A number is \<open>Fin x\<close> with \<open>x\<close> the exact value of the double, or one of the three special
  values. An object is the list of its own properties, keys distinct, in creation order.
\<close>

datatype jsnum = Fin rat | NaN | PosInf | NegInf

datatype jsval =
    JUndefined
  | JNull
  | JBool bool
  | JNum jsnum
  | JStr string
  | JArr "jsval list"
  | JObj "(string \<times> jsval) list"

datatype error = SyntaxError | TypeError

text \<open>
  Three operations of the language runtime depend on the binary floating-point format and
  on the full JSON and numeric-literal grammars. They are parameters of the model: every
  theorem below holds for every runtime.
  \<^item> \<open>JSON_parse\<close> is \<^verbatim>\<open>JSON.parse\<close>; \<open>None\<close> stands for the \<^verbatim>\<open>SyntaxError\<close> it throws.
  \<^item> \<open>Number_format\<close> prints a finite number that is not a safe integer.
  \<^item> \<open>String_to_number\<close> converts a string that is not a short run of digits.
\<close>

record runtime =
  JSON_parse :: "string \<Rightarrow> jsval option"
  Number_format :: "rat \<Rightarrow> string"
  String_to_number :: "string \<Rightarrow> jsnum"

subsection \<open>Numbers and strings\<close>

fun decimal :: "nat \<Rightarrow> string" where
  "decimal n =
     (if n < 10 then [''0123456789'' ! n]
      else decimal (n div 10) @ [''0123456789'' ! (n mod 10)])"

declare decimal.simps [simp del]

definition safe_integer :: "rat \<Rightarrow> bool" where
  "safe_integer x = (x = of_int \<lfloor>x\<rfloor> \<and> \<bar>\<lfloor>x\<rfloor>\<bar> \<le> 9007199254740991)"

text \<open>\<^verbatim>\<open>Number.prototype.toString()\<close>: a safe integer prints as its decimal digits.\<close>

definition Number_toString :: "runtime \<Rightarrow> jsnum \<Rightarrow> string" where
  "Number_toString R n =
     (case n of
        NaN \<Rightarrow> ''NaN''
      | PosInf \<Rightarrow> ''Infinity''
      | NegInf \<Rightarrow> ''-Infinity''
      | Fin x \<Rightarrow>
          if safe_integer x
          then (if x < 0 then ''-'' @ decimal (nat (- \<lfloor>x\<rfloor>)) else decimal (nat \<lfloor>x\<rfloor>))
          else Number_format R x)"

definition is_digit :: "char \<Rightarrow> bool" where
  "is_digit c = (c \<in> set ''0123456789'')"

fun digits_value :: "nat \<Rightarrow> string \<Rightarrow> nat" where
  "digits_value acc [] = acc"
| "digits_value acc (c # cs) = digits_value (acc * 10 + (of_char c - 48)) cs"

definition digit_string :: "string \<Rightarrow> bool" where
  "digit_string s = (s \<noteq> [] \<and> length s \<le> 15 \<and> list_all is_digit s)"

text \<open>
  The conversion of a string to a number: up to fifteen digits denote that integer exactly.
\<close>

definition StringToNumber :: "runtime \<Rightarrow> string \<Rightarrow> jsnum" where
  "StringToNumber R s =
     (if digit_string s then Fin (of_nat (digits_value 0 s)) else String_to_number R s)"

definition Number_equal :: "jsnum \<Rightarrow> jsnum \<Rightarrow> bool" where
  "Number_equal a b = (a \<noteq> NaN \<and> a = b)"

subsection \<open>Conversions\<close>

fun nullish :: "jsval \<Rightarrow> bool" where
  "nullish JUndefined = True"
| "nullish JNull = True"
| "nullish v = False"

fun is_object :: "jsval \<Rightarrow> bool" where
  "is_object (JArr xs) = True"
| "is_object (JObj kvs) = True"
| "is_object v = False"

fun ToBoolean :: "jsval \<Rightarrow> bool" where
  "ToBoolean JUndefined = False"
| "ToBoolean JNull = False"
| "ToBoolean (JBool b) = b"
| "ToBoolean (JNum n) = (n \<noteq> NaN \<and> n \<noteq> Fin 0)"
| "ToBoolean (JStr s) = (s \<noteq> [])"
| "ToBoolean (JArr xs) = True"
| "ToBoolean (JObj kvs) = True"

text \<open>
  \<open>ToString\<close> is the conversion of the language. An array joins its elements with commas,
  an absent element printing as the empty string. A parsed object inherits
  \<^verbatim>\<open>Object.prototype.toString\<close> unless it has a member called \<^verbatim>\<open>toString\<close> of its own;
  that member is data, not a function, and the conversion throws.
\<close>

fun ToString :: "runtime \<Rightarrow> jsval \<Rightarrow> error + string"
  and element :: "runtime \<Rightarrow> jsval \<Rightarrow> error + string"
  and join :: "runtime \<Rightarrow> jsval list \<Rightarrow> error + string" where
  "ToString R JUndefined = Inr ''undefined''"
| "ToString R JNull = Inr ''null''"
| "ToString R (JBool b) = Inr (if b then ''true'' else ''false'')"
| "ToString R (JNum n) = Inr (Number_toString R n)"
| "ToString R (JStr s) = Inr s"
| "ToString R (JArr xs) = join R xs"
| "ToString R (JObj kvs) =
     (if map_of kvs ''toString'' = None then Inr ''[object Object]'' else Inl TypeError)"
| "element R x = (if nullish x then Inr [] else ToString R x)"
| "join R [] = Inr []"
| "join R (x # xs) =
     (case element R x of
        Inl e \<Rightarrow> Inl e
      | Inr s \<Rightarrow>
          if xs = [] then Inr s
          else (case join R xs of Inl e \<Rightarrow> Inl e | Inr t \<Rightarrow> Inr (s @ '','' @ t)))"

text \<open>The method call \<^verbatim>\<open>v.toString()\<close>: there is no such method on null and undefined.\<close>

definition method_toString :: "runtime \<Rightarrow> jsval \<Rightarrow> error + string" where
  "method_toString R v = (if nullish v then Inl TypeError else ToString R v)"

text \<open>\<open>ToPrimitive\<close> without a hint; for arrays and parsed objects it ends in \<open>ToString\<close>.\<close>

definition ToPrimitive :: "runtime \<Rightarrow> jsval \<Rightarrow> error + jsval" where
  "ToPrimitive R v =
     (if is_object v
      then (case ToString R v of Inl e \<Rightarrow> Inl e | Inr s \<Rightarrow> Inr (JStr s))
      else Inr v)"

text \<open>The operator \<^verbatim>\<open>+\<close> with a string on the left.\<close>

definition string_plus :: "runtime \<Rightarrow> string \<Rightarrow> jsval \<Rightarrow> error + string" where
  "string_plus R s v = (case ToString R v of Inl e \<Rightarrow> Inl e | Inr t \<Rightarrow> Inr (s @ t))"

fun ToNumber :: "runtime \<Rightarrow> jsval \<Rightarrow> jsnum" where
  "ToNumber R (JNum n) = n"
| "ToNumber R (JBool b) = (if b then Fin 1 else Fin 0)"
| "ToNumber R (JStr s) = StringToNumber R s"
| "ToNumber R JNull = Fin 0"
| "ToNumber R v = NaN"

subsection \<open>Loose equality\<close>

text \<open>
  The operator \<^verbatim>\<open>==\<close> on two primitive values: null and undefined equal each other and
  nothing else, two strings are compared as strings, and every other pair as numbers.
\<close>

definition loosely_equal_primitives :: "runtime \<Rightarrow> jsval \<Rightarrow> jsval \<Rightarrow> bool" where
  "loosely_equal_primitives R x y =
     (if nullish x \<or> nullish y then nullish x \<and> nullish y
      else (case (x, y) of
              (JStr s, JStr t) \<Rightarrow> s = t
            | _ \<Rightarrow> Number_equal (ToNumber R x) (ToNumber R y)))"

text \<open>
  Two objects are equal only when they are one object. In every comparison of the message
  handler the left operand is a string or a value that \<^verbatim>\<open>JSON.parse\<close> has just
  allocated, so two objects are never the same one. An object against a primitive is
  converted first, which may throw.
\<close>

definition IsLooselyEqual :: "runtime \<Rightarrow> jsval \<Rightarrow> jsval \<Rightarrow> error + bool" where
  "IsLooselyEqual R x y =
     (if is_object x \<and> is_object y then Inr False
      else if is_object x
      then (if nullish y then Inr False
            else (case ToPrimitive R x of
                    Inl e \<Rightarrow> Inl e
                  | Inr p \<Rightarrow> Inr (loosely_equal_primitives R p y)))
      else if is_object y
      then (if nullish x then Inr False
            else (case ToPrimitive R y of
                    Inl e \<Rightarrow> Inl e
                  | Inr p \<Rightarrow> Inr (loosely_equal_primitives R x p)))
      else Inr (loosely_equal_primitives R x y))"

subsection \<open>Property access and \<^verbatim>\<open>split\<close>\<close>

text \<open>
  \<^verbatim>\<open>v.key\<close> for the keys \<^verbatim>\<open>Dimmer\<close>, \<^verbatim>\<open>CT\<close> and \<^verbatim>\<open>HSBColor\<close>, which no built-in prototype
  defines: reading a property of null throws, and only an object can have the property.
\<close>

fun get_property :: "jsval \<Rightarrow> string \<Rightarrow> error + jsval" where
  "get_property JUndefined key = Inl TypeError"
| "get_property JNull key = Inl TypeError"
| "get_property (JObj kvs) key =
     Inr (case map_of kvs key of None \<Rightarrow> JUndefined | Some v \<Rightarrow> v)"
| "get_property v key = Inr JUndefined"

text \<open>\<^verbatim>\<open>s.split(',')\<close>: at least one component, the empty string giving one empty component.\<close>

fun split :: "char \<Rightarrow> string \<Rightarrow> string list" where
  "split sep [] = [[]]"
| "split sep (c # cs) =
     (if c = sep then [] # split sep cs
      else (case split sep cs of [] \<Rightarrow> [[c]] | w # ws \<Rightarrow> (c # w) # ws))"

text \<open>Indexing the array of components: an index past the end reads undefined.\<close>

definition component :: "string list \<Rightarrow> nat \<Rightarrow> jsval" where
  "component ws i = (if i < length ws then JStr (ws ! i) else JUndefined)"

section \<open>The accessory\<close>

text \<open>
  The configuration is the structure the host hands to the constructor; the accessory
  reads \<^verbatim>\<open>name\<close>, \<^verbatim>\<open>url\<close>, \<^verbatim>\<open>username\<close>, \<^verbatim>\<open>password\<close> and the seven topics.
\<close>

record topics =
  getOn :: string
  getRes :: string
  setOn :: string
  setBrightness :: string
  setColorTemp :: string
  setHue :: string
  setSat :: string

record accessory_config =
  name :: string
  url :: string
  username :: "string option"
  password :: "string option"
  topics :: topics

text \<open>The fields of class \<^verbatim>\<open>ExampleSwitch\<close>; the last five are the device-state mirror.\<close>

record ExampleSwitch =
  config :: accessory_config
  accessory_name :: string
  mqttURL :: string
  mqttClientID :: string
  lightbulbOn :: jsval
  lightbulbBrightness :: jsval
  lightbulbColorTemp :: jsval
  lightbulbHue :: jsval
  lightbulbSat :: jsval

datatype characteristic = On | Brightness | ColorTemperature | Hue | Saturation

text \<open>
  What a handler does to the outside, in the order of the calls: a line handed to the logger
  (the list of its arguments), \<^verbatim>\<open>connect\<close>, \<^verbatim>\<open>subscribe\<close>, \<^verbatim>\<open>setValue(value, undefined, context)\<close>
  on a characteristic, \<^verbatim>\<open>publish(topic, payload)\<close>, and the two callbacks of the host:
  \<^verbatim>\<open>callback(undefined, value)\<close> of a GET and \<^verbatim>\<open>callback()\<close> of a SET.
\<close>

datatype event =
    LogInfo "string list"
  | Connect string "string option" "string option"
  | Subscribe string
  | SetValue characteristic jsval jsval
  | Publish string string
  | CallbackGet jsval
  | CallbackSet

text \<open>
  One run of a handler: the object as the handler leaves it, the calls it made, and the
  exception that ended it, if one did. An assignment made before a throw stays.
\<close>

record run =
  self :: ExampleSwitch
  trace :: "event list"
  raised :: "error option"

definition emit :: "event \<Rightarrow> run \<Rightarrow> run" where
  "emit ev r = r\<lparr>trace := trace r @ [ev]\<rparr>"

definition throw :: "error \<Rightarrow> run \<Rightarrow> run" where
  "throw e r = r\<lparr>raised := Some e\<rparr>"

fun publishes :: "event list \<Rightarrow> (string \<times> string) list" where
  "publishes [] = []"
| "publishes (Publish t p # evs) = (t, p) # publishes evs"
| "publishes (ev # evs) = publishes evs"

fun pushes :: "event list \<Rightarrow> (characteristic \<times> jsval \<times> jsval) list" where
  "pushes [] = []"
| "pushes (SetValue c v ctx # evs) = (c, v, ctx) # pushes evs"
| "pushes (ev # evs) = pushes evs"

fun returned :: "event list \<Rightarrow> jsval list" where
  "returned [] = []"
| "returned (CallbackGet v # evs) = v # returned evs"
| "returned (ev # evs) = returned evs"

subsection \<open>The constructor\<close>

text \<open>
  \<open>rnd\<close> is \<^verbatim>\<open>Math.random().toString(16).substr(2, 8)\<close>. The mirror starts at off, 0, 153,
  0 and 0 (lines 59 to 63), and both status topics are subscribed (lines 173 and 174).
\<close>

definition constructor :: "accessory_config \<Rightarrow> string \<Rightarrow> run" where
  "constructor cfg rnd =
     \<lparr> self =
         \<lparr> config = cfg,
           accessory_name = name cfg,
           mqttURL = url cfg,
           mqttClientID = ''mqttjs_'' @ name cfg @ ''_'' @ rnd,
           lightbulbOn = JBool False,
           lightbulbBrightness = JNum (Fin 0),
           lightbulbColorTemp = JNum (Fin 153),
           lightbulbHue = JNum (Fin 0),
           lightbulbSat = JNum (Fin 0) \<rparr>,
       trace =
         [ LogInfo [''Initializing MQTT''],
           LogInfo [''Connecting to '' @ url cfg],
           Connect (url cfg) (username cfg) (password cfg),
           LogInfo [''Subscribing to topic '' @ getOn (topics cfg)],
           Subscribe (getOn (topics cfg)),
           Subscribe (getRes (topics cfg)),
           LogInfo [''Finished initializing!''] ],
       raised = None \<rparr>"

subsection \<open>The message handler (lines 95 to 169)\<close>

definition fromSetValue :: jsval where
  "fromSetValue = JStr ''fromSetValue''"

text \<open>\<^verbatim>\<open>JSON.parse(message.toString()).key\<close>\<close>

definition parsed_member :: "runtime \<Rightarrow> string \<Rightarrow> string \<Rightarrow> error + jsval" where
  "parsed_member R message key =
     (case JSON_parse R message of
        None \<Rightarrow> Inl SyntaxError
      | Some j \<Rightarrow> get_property j key)"

text \<open>Lines 101 to 105.\<close>

definition power_branch :: "string \<Rightarrow> run \<Rightarrow> run" where
  "power_branch message r =
     (let status = message;
          that = (self r)\<lparr>lightbulbOn := JBool (status = ''ON'')\<rparr>
      in emit (SetValue On (lightbulbOn that) fromSetValue) (r\<lparr>self := that\<rparr>))"

text \<open>Lines 111 to 122.\<close>

definition brightness_block :: "runtime \<Rightarrow> string \<Rightarrow> run \<Rightarrow> run" where
  "brightness_block R message r =
     (if raised r \<noteq> None then r
      else (case parsed_member R message ''Dimmer'' of
              Inl e \<Rightarrow> throw e r
            | Inr d \<Rightarrow>
                if nullish d then r
                else (case parsed_member R message ''Dimmer'' of
                        Inl e \<Rightarrow> throw e r
                      | Inr newB \<Rightarrow>
                          (case IsLooselyEqual R newB (lightbulbBrightness (self r)) of
                             Inl e \<Rightarrow> throw e r
                           | Inr same \<Rightarrow>
                               if same then r
                               else (let that = (self r)\<lparr>lightbulbBrightness := newB\<rparr>
                                     in emit (SetValue Brightness (lightbulbBrightness that)
                                                fromSetValue)
                                          (r\<lparr>self := that\<rparr>))))))"

text \<open>Lines 126 to 137.\<close>

definition color_temperature_block :: "runtime \<Rightarrow> string \<Rightarrow> run \<Rightarrow> run" where
  "color_temperature_block R message r =
     (if raised r \<noteq> None then r
      else (case parsed_member R message ''CT'' of
              Inl e \<Rightarrow> throw e r
            | Inr d \<Rightarrow>
                if nullish d then r
                else (case parsed_member R message ''CT'' of
                        Inl e \<Rightarrow> throw e r
                      | Inr newCT \<Rightarrow>
                          (case IsLooselyEqual R newCT (lightbulbColorTemp (self r)) of
                             Inl e \<Rightarrow> throw e r
                           | Inr same \<Rightarrow>
                               if same then r
                               else (let that = (self r)\<lparr>lightbulbColorTemp := newCT\<rparr>
                                     in emit (SetValue ColorTemperature (lightbulbColorTemp that)
                                                fromSetValue)
                                          (r\<lparr>self := that\<rparr>))))))"

text \<open>
  \<^verbatim>\<open>JSON.parse(message.toString()).HSBColor.toString().split(',')[i]\<close>: the component is a
  string, or undefined when the text has too few commas; no conversion to a number follows.
\<close>

definition hsb_component :: "runtime \<Rightarrow> string \<Rightarrow> nat \<Rightarrow> error + jsval" where
  "hsb_component R message i =
     (case parsed_member R message ''HSBColor'' of
        Inl e \<Rightarrow> Inl e
      | Inr h \<Rightarrow>
          (case method_toString R h of
             Inl e \<Rightarrow> Inl e
           | Inr s \<Rightarrow> Inr (component (split CHR '','' s) i)))"

text \<open>Lines 141 to 152.\<close>

definition hue_block :: "runtime \<Rightarrow> string \<Rightarrow> run \<Rightarrow> run" where
  "hue_block R message r =
     (if raised r \<noteq> None then r
      else (case parsed_member R message ''HSBColor'' of
              Inl e \<Rightarrow> throw e r
            | Inr d \<Rightarrow>
                if nullish d then r
                else (case hsb_component R message 0 of
                        Inl e \<Rightarrow> throw e r
                      | Inr newHue \<Rightarrow>
                          (case IsLooselyEqual R newHue (lightbulbHue (self r)) of
                             Inl e \<Rightarrow> throw e r
                           | Inr same \<Rightarrow>
                               if same then r
                               else (let that = (self r)\<lparr>lightbulbHue := newHue\<rparr>
                                     in emit (SetValue Hue (lightbulbHue that) fromSetValue)
                                          (r\<lparr>self := that\<rparr>))))))"

text \<open>Lines 156 to 167.\<close>

definition saturation_block :: "runtime \<Rightarrow> string \<Rightarrow> run \<Rightarrow> run" where
  "saturation_block R message r =
     (if raised r \<noteq> None then r
      else (case parsed_member R message ''HSBColor'' of
              Inl e \<Rightarrow> throw e r
            | Inr d \<Rightarrow>
                if nullish d then r
                else (case hsb_component R message 1 of
                        Inl e \<Rightarrow> throw e r
                      | Inr newSat \<Rightarrow>
                          (case IsLooselyEqual R newSat (lightbulbSat (self r)) of
                             Inl e \<Rightarrow> throw e r
                           | Inr same \<Rightarrow>
                               if same then r
                               else (let that = (self r)\<lparr>lightbulbSat := newSat\<rparr>
                                     in emit (SetValue Saturation (lightbulbSat that) fromSetValue)
                                          (r\<lparr>self := that\<rparr>))))))"

definition composite_branch :: "runtime \<Rightarrow> string \<Rightarrow> run \<Rightarrow> run" where
  "composite_branch R message r =
     saturation_block R message
       (hue_block R message
          (color_temperature_block R message
             (brightness_block R message r)))"

text \<open>
  The handler registered with \<^verbatim>\<open>mqttClient.on('message', ...)\<close>. \<open>message\<close> is the text
  of the payload, \<^verbatim>\<open>message.toString()\<close>. The two tests on the topic are separate
  statements, not alternatives. The handler contains no \<^verbatim>\<open>try\<close>.
\<close>

definition on_message :: "runtime \<Rightarrow> string \<Rightarrow> string \<Rightarrow> ExampleSwitch \<Rightarrow> run" where
  "on_message R topic message that =
     (let r0 = \<lparr> self = that, trace = [LogInfo [message, topic]], raised = None \<rparr>;
          r1 = (if topic = getOn (topics (config that)) then power_branch message r0 else r0)
      in if topic = getRes (topics (config that)) then composite_branch R message r1 else r1)"

subsection \<open>The GET and SET handlers (lines 182 to 258)\<close>

text \<open>
  The five pairs of handlers differ in the field, the topic and the wording of the log
  line; power prints and publishes \<^verbatim>\<open>this.lightbulbOn ? "ON" : "OFF"\<close>, the four others
  concatenate the field into the log line and publish \<^verbatim>\<open>field.toString()\<close>.
\<close>

fun field :: "characteristic \<Rightarrow> ExampleSwitch \<Rightarrow> jsval" where
  "field On this = lightbulbOn this"
| "field Brightness this = lightbulbBrightness this"
| "field ColorTemperature this = lightbulbColorTemp this"
| "field Hue this = lightbulbHue this"
| "field Saturation this = lightbulbSat this"

fun assign :: "characteristic \<Rightarrow> jsval \<Rightarrow> ExampleSwitch \<Rightarrow> ExampleSwitch" where
  "assign On v this = this\<lparr>lightbulbOn := v\<rparr>"
| "assign Brightness v this = this\<lparr>lightbulbBrightness := v\<rparr>"
| "assign ColorTemperature v this = this\<lparr>lightbulbColorTemp := v\<rparr>"
| "assign Hue v this = this\<lparr>lightbulbHue := v\<rparr>"
| "assign Saturation v this = this\<lparr>lightbulbSat := v\<rparr>"

fun set_topic :: "topics \<Rightarrow> characteristic \<Rightarrow> string" where
  "set_topic ts On = setOn ts"
| "set_topic ts Brightness = setBrightness ts"
| "set_topic ts ColorTemperature = setColorTemp ts"
| "set_topic ts Hue = setHue ts"
| "set_topic ts Saturation = setSat ts"

fun get_line :: "characteristic \<Rightarrow> string" where
  "get_line On = ''Current state of the lightbulb was returned: ''"
| "get_line Brightness = ''Current brightness of the lightbulb was returned: ''"
| "get_line ColorTemperature = ''Current color temperature of the lightbulb was returned: ''"
| "get_line Hue = ''Current hue of the lightbulb was returned: ''"
| "get_line Saturation = ''Current saturation of the lightbulb was returned: ''"

fun set_line :: "characteristic \<Rightarrow> string" where
  "set_line On = ''Lightbulb state was set to: ''"
| "set_line Brightness = ''Lightbulb brightness was set to: ''"
| "set_line ColorTemperature = ''Lightbulb color temperature was set to: ''"
| "set_line Hue = ''Lightbulb hue was set to: ''"
| "set_line Saturation = ''Lightbulb saturation was set to: ''"

definition on_off :: "jsval \<Rightarrow> string" where
  "on_off v = (if ToBoolean v then ''ON'' else ''OFF'')"

text \<open>The payload of the publish.\<close>

fun wire :: "runtime \<Rightarrow> characteristic \<Rightarrow> jsval \<Rightarrow> error + string" where
  "wire R On v = Inr (on_off v)"
| "wire R c v = method_toString R v"

text \<open>The argument of \<^verbatim>\<open>log.info\<close>.\<close>

fun log_line :: "runtime \<Rightarrow> characteristic \<Rightarrow> string \<Rightarrow> jsval \<Rightarrow> error + string" where
  "log_line R On s v = Inr (s @ on_off v)"
| "log_line R c s v = string_plus R s v"

definition GET :: "runtime \<Rightarrow> characteristic \<Rightarrow> ExampleSwitch \<Rightarrow> run" where
  "GET R c this =
     (let r0 = \<lparr> self = this, trace = [], raised = None \<rparr>
      in (case log_line R c (get_line c) (field c this) of
            Inl e \<Rightarrow> throw e r0
          | Inr line \<Rightarrow> emit (CallbackGet (field c this)) (emit (LogInfo [line]) r0)))"

definition SET :: "runtime \<Rightarrow> characteristic \<Rightarrow> jsval \<Rightarrow> jsval \<Rightarrow> ExampleSwitch \<Rightarrow> run" where
  "SET R c v context this =
     (let r0 = \<lparr> self = this, trace = [], raised = None \<rparr>;
          r1 = (if context \<noteq> fromSetValue
                then (let r = r0\<lparr>self := assign c v this\<rparr>
                      in (case wire R c (field c (self r)) of
                            Inl e \<Rightarrow> throw e r
                          | Inr payload \<Rightarrow>
                              emit (Publish (set_topic (topics (config this)) c) payload) r))
                else r0)
      in if raised r1 \<noteq> None then r1
         else (case log_line R c (set_line c) (field c (self r1)) of
                 Inl e \<Rightarrow> throw e r1
               | Inr line \<Rightarrow> emit CallbackSet (emit (LogInfo [line]) r1)))"

section \<open>A runtime for concrete runs\<close>

text \<open>
  To run the handlers on a payload, a runtime has to be supplied. The parser below reads a
  fragment of JSON, the one device telemetry is written in: objects, arrays, strings
  without escape sequences, integers of at most fifteen digits, \<^verbatim>\<open>true\<close>, \<^verbatim>\<open>false\<close> and
  \<^verbatim>\<open>null\<close>, with the white space JSON allows. A text outside the fragment is answered
  \<open>None\<close>. The length of the text bounds the depth of the recursion and serves as fuel.
  No general statement rests on this parser: it is used for the concrete runs only, on
  payloads written out in full.
\<close>

definition is_space :: "char \<Rightarrow> bool" where
  "is_space c = (c \<in> set [CHR '' '', CHR 0x09, CHR 0x0A, CHR 0x0D])"

fun skip_space :: "string \<Rightarrow> string" where
  "skip_space [] = []"
| "skip_space (c # cs) = (if is_space c then skip_space cs else c # cs)"

text \<open>The characters of a string up to the closing quote.\<close>

fun string_body :: "string \<Rightarrow> (string \<times> string) option" where
  "string_body [] = None"
| "string_body (c # cs) =
     (if c = CHR 0x22 then Some ([], cs)
      else if c = CHR 0x5C \<or> of_char c < (32::nat) then None
      else (case string_body cs of None \<Rightarrow> None | Some (t, rest) \<Rightarrow> Some (c # t, rest)))"

fun number_end :: "string \<Rightarrow> bool" where
  "number_end [] = True"
| "number_end (c # cs) = (c \<notin> set ''.eE'')"

definition unsigned_integer :: "string \<Rightarrow> (nat \<times> string) option" where
  "unsigned_integer s =
     (let ds = takeWhile is_digit s; rest = dropWhile is_digit s
      in if digit_string ds \<and> (if hd ds = CHR ''0'' then length ds = 1 else True) \<and> number_end rest
         then Some (digits_value 0 ds, rest)
         else None)"

definition number_literal :: "string \<Rightarrow> (jsval \<times> string) option" where
  "number_literal s =
     (case s of
        [] \<Rightarrow> None
      | c # cs \<Rightarrow>
          if c = CHR ''-''
          then (case unsigned_integer cs of
                  None \<Rightarrow> None
                | Some (n, rest) \<Rightarrow> Some (JNum (Fin (- of_nat n)), rest))
          else (case unsigned_integer s of
                  None \<Rightarrow> None
                | Some (n, rest) \<Rightarrow> Some (JNum (Fin (of_nat n)), rest)))"

definition keyword :: "string \<Rightarrow> jsval \<Rightarrow> string \<Rightarrow> (jsval \<times> string) option" where
  "keyword w v s = (if take (length w) s = w then Some (v, drop (length w) s) else None)"

text \<open>A repeated key keeps its place and takes the later value.\<close>

fun put_member :: "string \<Rightarrow> jsval \<Rightarrow> (string \<times> jsval) list \<Rightarrow> (string \<times> jsval) list" where
  "put_member k v [] = [(k, v)]"
| "put_member k v ((k', v') # kvs) =
     (if k = k' then (k, v) # kvs else (k', v') # put_member k v kvs)"

fun json_value :: "string \<Rightarrow> string \<Rightarrow> (jsval \<times> string) option"
  and json_elements :: "string \<Rightarrow> jsval list \<Rightarrow> string \<Rightarrow> (jsval \<times> string) option"
  and json_members ::
    "string \<Rightarrow> (string \<times> jsval) list \<Rightarrow> string \<Rightarrow> (jsval \<times> string) option" where
  "json_value [] s = None"
| "json_value (f # fuel) s =
     (case skip_space s of
        [] \<Rightarrow> None
      | c # cs \<Rightarrow>
          if c = CHR ''{''
          then (case skip_space cs of
                  [] \<Rightarrow> None
                | d # ds \<Rightarrow> if d = CHR ''}'' then Some (JObj [], ds) else json_members fuel [] cs)
          else if c = CHR ''[''
          then (case skip_space cs of
                  [] \<Rightarrow> None
                | d # ds \<Rightarrow> if d = CHR '']'' then Some (JArr [], ds) else json_elements fuel [] cs)
          else if c = CHR 0x22
          then (case string_body cs of None \<Rightarrow> None | Some (t, rest) \<Rightarrow> Some (JStr t, rest))
          else if c = CHR ''t'' then keyword ''true'' (JBool True) (c # cs)
          else if c = CHR ''f'' then keyword ''false'' (JBool False) (c # cs)
          else if c = CHR ''n'' then keyword ''null'' JNull (c # cs)
          else number_literal (c # cs))"
| "json_elements [] acc s = None"
| "json_elements (f # fuel) acc s =
     (case json_value fuel s of
        None \<Rightarrow> None
      | Some (v, rest) \<Rightarrow>
          (case skip_space rest of
             [] \<Rightarrow> None
           | c # cs \<Rightarrow>
               if c = CHR '','' then json_elements fuel (acc @ [v]) cs
               else if c = CHR '']'' then Some (JArr (acc @ [v]), cs)
               else None))"
| "json_members [] acc s = None"
| "json_members (f # fuel) acc s =
     (case skip_space s of
        [] \<Rightarrow> None
      | q # qs \<Rightarrow>
          if q \<noteq> CHR 0x22 then None
          else (case string_body qs of
                  None \<Rightarrow> None
                | Some (k, rest) \<Rightarrow>
                    (case skip_space rest of
                       [] \<Rightarrow> None
                     | c # cs \<Rightarrow>
                         if c \<noteq> CHR '':'' then None
                         else (case json_value fuel cs of
                                 None \<Rightarrow> None
                               | Some (v, rest') \<Rightarrow>
                                   (case skip_space rest' of
                                      [] \<Rightarrow> None
                                    | e # es \<Rightarrow>
                                        if e = CHR '','' then json_members fuel (put_member k v acc) es
                                        else if e = CHR ''}'' then Some (JObj (put_member k v acc), es)
                                        else None)))))"

definition json_text :: "string \<Rightarrow> jsval option" where
  "json_text s =
     (case json_value (CHR '' '' # s) s of
        None \<Rightarrow> None
      | Some (v, rest) \<Rightarrow> if skip_space rest = [] then Some v else None)"

text \<open>
  The runtime of the concrete runs. None of them prints a number that is not a safe
  integer; the only string they convert that is not a run of digits is
  \<^verbatim>\<open>[object Object]\<close>, which is no numeric literal and converts to \<^verbatim>\<open>NaN\<close>.
\<close>

definition bench :: runtime where
  "bench = \<lparr> JSON_parse = json_text, Number_format = (\<lambda>x. []), String_to_number = (\<lambda>s. NaN) \<rparr>"

text \<open>The configuration of a Tasmota bulb, for the concrete runs.\<close>

definition bulb :: accessory_config where
  "bulb =
     \<lparr> name = ''Bulb'', url = ''mqtt://localhost'', username = None, password = None,
       topics =
         \<lparr> getOn = ''stat/bulb/POWER'', getRes = ''stat/bulb/RESULT'',
           setOn = ''cmnd/bulb/POWER'', setBrightness = ''cmnd/bulb/Dimmer'',
           setColorTemp = ''cmnd/bulb/CT'', setHue = ''cmnd/bulb/HSBColor1'',
           setSat = ''cmnd/bulb/HSBColor2'' \<rparr> \<rparr>"

definition fresh :: ExampleSwitch where
  "fresh = self (constructor bulb ''1a2b3c4d'')"

section \<open>Notions used in the statements\<close>

text \<open>The device state: the five channels of the mirror.\<close>

definition device_state :: "ExampleSwitch \<Rightarrow> jsval \<times> jsval \<times> jsval \<times> jsval \<times> jsval" where
  "device_state this =
     (lightbulbOn this, lightbulbBrightness this, lightbulbColorTemp this,
      lightbulbHue this, lightbulbSat this)"

text \<open>The type each channel is declared with: a boolean for power, a number for the rest.\<close>

fun declared_type :: "characteristic \<Rightarrow> jsval \<Rightarrow> bool" where
  "declared_type On (JBool b) = True"
| "declared_type On v = False"
| "declared_type c (JNum n) = True"
| "declared_type c v = False"

text \<open>
  The wire representation of a number is its decimal string. For a natural number this is
  stated by reading, not by printing: \<open>ds\<close> is the decimal text of \<open>n\<close> when it is a
  non-empty run of digits without a leading zero (the single digit \<^verbatim>\<open>0\<close> apart) whose
  value is \<open>n\<close>. A negative integer has a minus sign in front.
\<close>

definition natural_text :: "nat \<Rightarrow> string \<Rightarrow> bool" where
  "natural_text n ds =
     (ds \<noteq> [] \<and> list_all is_digit ds \<and>
      (if hd ds = CHR ''0'' then length ds = 1 else True) \<and>
      digits_value 0 ds = n)"

definition integer_text :: "int \<Rightarrow> string \<Rightarrow> bool" where
  "integer_text k w =
     (if k < 0
      then (case w of [] \<Rightarrow> False | c # ds \<Rightarrow> c = CHR ''-'' \<and> natural_text (nat (- k)) ds)
      else natural_text (nat k) w)"

text \<open>
  The decimal string of a JavaScript number: the three special values have their names, a
  safe integer has its decimal text, and any other finite number is printed by the
  runtime.
\<close>

fun decimal_string :: "runtime \<Rightarrow> jsnum \<Rightarrow> string \<Rightarrow> bool" where
  "decimal_string R NaN w = (w = ''NaN'')"
| "decimal_string R PosInf w = (w = ''Infinity'')"
| "decimal_string R NegInf w = (w = ''-Infinity'')"
| "decimal_string R (Fin x) w =
     (if safe_integer x then integer_text \<lfloor>x\<rfloor> w else w = Number_format R x)"

text \<open>
  A SET followed by the GET of the same channel: the object after the SET, what the SET
  published, how the SET ended, what the GET returned and how it ended.
\<close>

definition set_then_get ::
  "runtime \<Rightarrow> characteristic \<Rightarrow> jsval \<Rightarrow> jsval \<Rightarrow> ExampleSwitch \<Rightarrow>
   ExampleSwitch \<times> (string \<times> string) list \<times> error option \<times> jsval list \<times> error option" where
  "set_then_get R c v context this =
     (let r = SET R c v context this; g = GET R c (self r)
      in (self r, publishes (trace r), raised r, returned (trace g), raised g))"

text \<open>
  Two runs agree when they leave the same configuration and device state, made the same
  calls and ended the same way.
\<close>

definition agree :: "run \<Rightarrow> run \<Rightarrow> bool" where
  "agree r r' =
     (config (self r) = config (self r') \<and> device_state (self r) = device_state (self r') \<and>
      trace r = trace r' \<and> raised r = raised r')"

text \<open>
  What one of the four blocks of the composite branch can do to a run: nothing, throw, or
  store a value that is not loosely equal to the field and push it with the echo tag.
\<close>

inductive block_step :: "runtime \<Rightarrow> characteristic \<Rightarrow> run \<Rightarrow> run \<Rightarrow> bool" for R c where
  unchanged: "block_step R c r r"
| thrown: "block_step R c r (throw e r)"
| changed:
    "IsLooselyEqual R v (field c (self r)) = Inr False \<Longrightarrow>
     block_step R c r (emit (SetValue c v fromSetValue) (r\<lparr>self := assign c v (self r)\<rparr>))"

section \<open>Auxiliary facts\<close>

lemma publishes_append: "publishes (xs @ ys) = publishes xs @ publishes ys"
  by (induction xs rule: publishes.induct) simp_all

lemma pushes_append: "pushes (xs @ ys) = pushes xs @ pushes ys"
  by (induction xs rule: pushes.induct) simp_all

lemma returned_append: "returned (xs @ ys) = returned xs @ returned ys"
  by (induction xs rule: returned.induct) simp_all

lemma field_assign_same: "field c (assign c v s) = v"
  by (cases c) simp_all

lemma field_assign_other: "c' \<noteq> c \<Longrightarrow> field c' (assign c v s) = field c' s"
  by (cases c; cases c') simp_all

lemma config_assign: "config (assign c v s) = config s"
  by (cases c) simp_all

lemma brightness_block_step: "block_step R Brightness r (brightness_block R m r)"
  unfolding brightness_block_def
  by (auto split: sum.splits simp: Let_def
      intro: block_step.unchanged block_step.thrown
        block_step.changed [of R _ Brightness r, simplified])

lemma color_temperature_block_step:
  "block_step R ColorTemperature r (color_temperature_block R m r)"
  unfolding color_temperature_block_def
  by (auto split: sum.splits simp: Let_def
      intro: block_step.unchanged block_step.thrown
        block_step.changed [of R _ ColorTemperature r, simplified])

lemma hue_block_step: "block_step R Hue r (hue_block R m r)"
  unfolding hue_block_def
  by (auto split: sum.splits simp: Let_def
      intro: block_step.unchanged block_step.thrown
        block_step.changed [of R _ Hue r, simplified])

lemma saturation_block_step: "block_step R Saturation r (saturation_block R m r)"
  unfolding saturation_block_def
  by (auto split: sum.splits simp: Let_def
      intro: block_step.unchanged block_step.thrown
        block_step.changed [of R _ Saturation r, simplified])

lemma step_publishes: "block_step R c r r' \<Longrightarrow> publishes (trace r') = publishes (trace r)"
  by (induction rule: block_step.induct) (simp_all add: emit_def throw_def publishes_append)

lemma step_config: "block_step R c r r' \<Longrightarrow> config (self r') = config (self r)"
  by (induction rule: block_step.induct) (simp_all add: emit_def throw_def config_assign)

lemma step_frame: "block_step R c r r' \<Longrightarrow> c' \<noteq> c \<Longrightarrow> field c' (self r') = field c' (self r)"
  by (induction rule: block_step.induct) (simp_all add: emit_def throw_def field_assign_other)

lemma step_pushes:
  "block_step R c r r' \<Longrightarrow>
     (field c (self r') = field c (self r) \<and> pushes (trace r') = pushes (trace r)) \<or>
     (IsLooselyEqual R (field c (self r')) (field c (self r)) = Inr False \<and>
      pushes (trace r') = pushes (trace r) @ [(c, field c (self r'), fromSetValue)])"
  by (induction rule: block_step.induct)
     (simp_all add: emit_def throw_def pushes_append field_assign_same)

lemma composite_branch_rule:
  assumes "P r" and "\<And>c r r'. c \<noteq> On \<Longrightarrow> P r \<Longrightarrow> block_step R c r r' \<Longrightarrow> P r'"
  shows "P (composite_branch R m r)"
proof -
  let ?r1 = "brightness_block R m r"
  let ?r2 = "color_temperature_block R m ?r1"
  let ?r3 = "hue_block R m ?r2"
  have "P ?r1" using assms(2) [OF _ assms(1) brightness_block_step] by simp
  then have "P ?r2" using assms(2) [OF _ _ color_temperature_block_step] by simp
  then have "P ?r3" using assms(2) [OF _ _ hue_block_step] by simp
  then have "P (saturation_block R m ?r3)" using assms(2) [OF _ _ saturation_block_step] by simp
  then show ?thesis by (simp add: composite_branch_def)
qed

lemmas parse_defs = json_text_def is_space_def keyword_def number_literal_def unsigned_integer_def
  digit_string_def is_digit_def

lemmas handler_defs = on_message_def power_branch_def composite_branch_def brightness_block_def
  color_temperature_block_def hue_block_def saturation_block_def hsb_component_def
  parsed_member_def emit_def throw_def component_def method_toString_def
  IsLooselyEqual_def loosely_equal_primitives_def ToPrimitive_def Number_equal_def
  StringToNumber_def Number_toString_def safe_integer_def string_plus_def
  GET_def SET_def on_off_def device_state_def

lemmas bench_defs = bench_def bulb_def fresh_def constructor_def

lemma power_branch_publishes: "publishes (trace (power_branch m r)) = publishes (trace r)"
  by (simp add: power_branch_def emit_def publishes_append Let_def)

lemma on_message_publishes: "publishes (trace (on_message R t m s)) = []"
proof -
  have "publishes (trace (composite_branch R m r)) = []" if "publishes (trace r) = []" for r
    by (rule composite_branch_rule [where P = "\<lambda>r. publishes (trace r) = []"])
       (simp_all add: that step_publishes)
  then show ?thesis
    by (simp add: on_message_def Let_def power_branch_publishes)
qed

lemma tagged_SET_publishes: "publishes (trace (SET R c v fromSetValue s)) = []"
  by (simp add: SET_def Let_def emit_def throw_def publishes_append split: sum.splits)

lemma step_tagged:
  assumes "block_step R c r r'" and "\<forall>p \<in> set (pushes (trace r)). snd (snd p) = fromSetValue"
  shows "\<forall>p \<in> set (pushes (trace r')). snd (snd p) = fromSetValue"
  using step_pushes [OF assms(1)] assms(2) by auto

lemma on_message_tagged: "\<forall>p \<in> set (pushes (trace (on_message R t m s))). snd (snd p) = fromSetValue"
proof -
  let ?T = "\<lambda>r. \<forall>p \<in> set (pushes (trace r)). snd (snd p) = fromSetValue"
  have comp: "?T (composite_branch R m r)" if "?T r" for r
    by (rule composite_branch_rule [where P = ?T]) (use that step_tagged in blast)+
  have pw: "?T (power_branch m r)" if "?T r" for r
    using that by (simp add: power_branch_def emit_def pushes_append Let_def)
  show ?thesis
    unfolding on_message_def Let_def by (auto intro!: comp pw)
qed

lemma step_echo:
  assumes "block_step R c r r'"
    and "\<forall>d. field d (self r) \<noteq> field d s \<longrightarrow> (d, field d (self r), fromSetValue) \<in> set (pushes (trace r))"
  shows "\<forall>d. field d (self r') \<noteq> field d s \<longrightarrow> (d, field d (self r'), fromSetValue) \<in> set (pushes (trace r'))"
proof (intro allI impI)
  fix d assume d: "field d (self r') \<noteq> field d s"
  show "(d, field d (self r'), fromSetValue) \<in> set (pushes (trace r'))"
  proof (cases "d = c")
    case True
    with step_pushes [OF assms(1)] assms(2) d show ?thesis by auto
  next
    case False
    then have "field d (self r') = field d (self r)" using step_frame [OF assms(1)] by simp
    moreover have "set (pushes (trace r)) \<subseteq> set (pushes (trace r'))"
      using step_pushes [OF assms(1)] by auto
    ultimately show ?thesis using assms(2) d by auto
  qed
qed

lemma power_branch_shape:
  "power_branch m r =
     emit (SetValue On (JBool (m = ''ON'')) fromSetValue)
       (r\<lparr>self := assign On (JBool (m = ''ON'')) (self r)\<rparr>)"
  by (simp add: power_branch_def Let_def)

lemma power_branch_echo:
  assumes "\<forall>d. field d (self r) \<noteq> field d s \<longrightarrow> (d, field d (self r), fromSetValue) \<in> set (pushes (trace r))"
  shows "\<forall>d. field d (self (power_branch m r)) \<noteq> field d s \<longrightarrow>
           (d, field d (self (power_branch m r)), fromSetValue) \<in> set (pushes (trace (power_branch m r)))"
proof (intro allI impI)
  fix d assume d: "field d (self (power_branch m r)) \<noteq> field d s"
  show "(d, field d (self (power_branch m r)), fromSetValue) \<in> set (pushes (trace (power_branch m r)))"
  proof (cases "d = On")
    case True
    then show ?thesis
      by (simp add: power_branch_shape emit_def pushes_append del: field.simps assign.simps
          add: field_assign_same)
  next
    case False
    then have "field d (self (power_branch m r)) = field d (self r)"
      by (simp add: power_branch_shape emit_def field_assign_other del: field.simps assign.simps)
    with assms d have "(d, field d (self r), fromSetValue) \<in> set (pushes (trace r))" by simp
    then show ?thesis
      using \<open>field d (self (power_branch m r)) = field d (self r)\<close>
      by (simp add: power_branch_shape emit_def pushes_append del: field.simps assign.simps)
  qed
qed

lemma on_message_echo:
  "\<forall>d. field d (self (on_message R t m s)) \<noteq> field d s \<longrightarrow>
       (d, field d (self (on_message R t m s)), fromSetValue) \<in> set (pushes (trace (on_message R t m s)))"
proof -
  let ?E = "\<lambda>r. \<forall>d. field d (self r) \<noteq> field d s \<longrightarrow> (d, field d (self r), fromSetValue) \<in> set (pushes (trace r))"
  have comp: "?E (composite_branch R m r)" if "?E r" for r
    by (rule composite_branch_rule [where P = ?E]) (use that step_echo in blast)+
  have init: "?E \<lparr> self = s, trace = [LogInfo [m, t]], raised = None \<rparr>" by simp
  show ?thesis
    unfolding on_message_def Let_def
    by (auto intro!: comp power_branch_echo init simp del: field.simps)
qed

lemma on_message_power:
  assumes "t = getOn (topics (config s))"
  shows "lightbulbOn (self (on_message R t m s)) = JBool (m = ''ON'')"
proof -
  let ?P = "\<lambda>r. field On (self r) = JBool (m = ''ON'')"
  have comp: "?P (composite_branch R m r)" if "?P r" for r
    by (rule composite_branch_rule [where P = ?P]) (use that step_frame in \<open>simp_all del: field.simps\<close>)
  have "?P (power_branch m r)" for r
    by (simp add: power_branch_def emit_def Let_def)
  then have "?P (on_message R t m s)"
    using assms comp unfolding on_message_def Let_def by (simp del: field.simps)
  then show ?thesis by simp
qed

lemma digit_char:
  assumes "n < 10"
  shows "is_digit (''0123456789'' ! n)" and "of_char (''0123456789'' ! n) = 48 + n"
    and "0 < n \<Longrightarrow> ''0123456789'' ! n \<noteq> CHR ''0''"
proof -
  from assms have "n \<in> {0, 1, 2, 3, 4, 5, 6, 7, 8, 9}" by auto
  then have "is_digit (''0123456789'' ! n) \<and> of_char (''0123456789'' ! n) = 48 + n \<and>
             (0 < n \<longrightarrow> ''0123456789'' ! n \<noteq> CHR ''0'')"
    by (elim insertE emptyE) (simp_all add: is_digit_def)
  then show "is_digit (''0123456789'' ! n)" and "of_char (''0123456789'' ! n) = 48 + n"
    and "0 < n \<Longrightarrow> ''0123456789'' ! n \<noteq> CHR ''0''" by blast+
qed

lemma decimal_nonempty: "decimal n \<noteq> []"
  by (subst decimal.simps) simp

lemma decimal_digits: "list_all is_digit (decimal n)"
proof (induction n rule: decimal.induct)
  case (1 n)
  show ?case
  proof (cases "n < 10")
    case True
    then show ?thesis by (subst decimal.simps) (simp add: digit_char(1))
  next
    case False
    then show ?thesis using "1.IH" by (subst decimal.simps) (simp add: digit_char(1))
  qed
qed

lemma digits_value_append:
  "digits_value acc (xs @ ys) = digits_value (digits_value acc xs) ys"
  by (induction xs arbitrary: acc) simp_all

lemma digits_value_decimal: "digits_value 0 (decimal n) = n"
proof (induction n rule: decimal.induct)
  case (1 n)
  show ?case
  proof (cases "n < 10")
    case True
    then show ?thesis by (subst decimal.simps) (simp add: digit_char(2))
  next
    case False
    then have "digits_value 0 (decimal (n div 10)) = n div 10" using "1.IH" by simp
    with False show ?thesis
      by (subst decimal.simps) (simp add: digits_value_append digit_char(2))
  qed
qed

lemma decimal_leading: "0 < n \<Longrightarrow> hd (decimal n) \<noteq> CHR ''0''"
proof (induction n rule: decimal.induct)
  case (1 n)
  show ?case
  proof (cases "n < 10")
    case True
    have "decimal n = [''0123456789'' ! n] \<Longrightarrow> ?thesis"
      using digit_char(3) [OF True "1.prems"] by (metis list.sel(1))
    moreover from True have "decimal n = [''0123456789'' ! n]"
      by (subst decimal.simps) (simp only: if_True)
    ultimately show ?thesis .
  next
    case False
    then have "hd (decimal (n div 10)) \<noteq> CHR ''0''" using "1.IH" by simp
    with False show ?thesis
      by (subst decimal.simps) (simp add: decimal_nonempty)
  qed
qed

lemma natural_text_decimal: "natural_text n (decimal n)"
proof -
  have "length (decimal n) = 1" if "hd (decimal n) = CHR ''0''"
  proof -
    from that decimal_leading [of n] have "n = 0" by auto
    then show ?thesis by (simp add: decimal.simps)
  qed
  then show ?thesis
    by (simp add: natural_text_def decimal_nonempty decimal_digits digits_value_decimal)
qed

lemma decimal_string_Number_toString: "decimal_string R n (Number_toString R n)"
proof (cases n)
  case (Fin x)
  show ?thesis
  proof (cases "safe_integer x")
    case True
    then have x: "x = of_int \<lfloor>x\<rfloor>" by (simp add: safe_integer_def)
    have neg: "x < 0 \<longleftrightarrow> \<lfloor>x\<rfloor> < 0" by (subst x) simp
    show ?thesis
      using True neg
      by (simp add: Fin Number_toString_def integer_text_def natural_text_decimal)
  next
    case False
    then show ?thesis by (simp add: Fin Number_toString_def)
  qed
qed (simp_all add: Number_toString_def)

lemma set_then_get_power:
  assumes "context \<noteq> fromSetValue"
  shows "set_then_get R On (JBool b) context this =
           (this\<lparr>lightbulbOn := JBool b\<rparr>,
            [(setOn (topics (config this)), if b then ''ON'' else ''OFF'')],
            None, [JBool b], None)"
  using assms by (simp add: set_then_get_def SET_def GET_def Let_def emit_def on_off_def)

lemma set_then_get_number:
  assumes "context \<noteq> fromSetValue" and "c \<noteq> On"
  shows "set_then_get R c (JNum n) context this =
           (assign c (JNum n) this,
            [(set_topic (topics (config this)) c, Number_toString R n)],
            None, [JNum n], None)"
  using assms
  by (cases c)
     (simp_all add: set_then_get_def SET_def GET_def Let_def emit_def method_toString_def
        string_plus_def)

lemma digit_of_value:
  assumes "is_digit d"
  shows "of_char d - (48::nat) < 10" and "''0123456789'' ! (of_char d - (48::nat)) = d"
    and "d \<noteq> CHR ''0'' \<Longrightarrow> 0 < of_char d - (48::nat)"
proof -
  from assms have "d = CHR ''0'' \<or> d = CHR ''1'' \<or> d = CHR ''2'' \<or> d = CHR ''3'' \<or>
    d = CHR ''4'' \<or> d = CHR ''5'' \<or> d = CHR ''6'' \<or> d = CHR ''7'' \<or> d = CHR ''8'' \<or>
    d = CHR ''9''" by (simp add: is_digit_def)
  then have "of_char d - (48::nat) < 10 \<and> ''0123456789'' ! (of_char d - (48::nat)) = d \<and>
             (d \<noteq> CHR ''0'' \<longrightarrow> 0 < of_char d - (48::nat))"
    by (elim disjE) simp_all
  then show "of_char d - (48::nat) < 10" and "''0123456789'' ! (of_char d - (48::nat)) = d"
    and "d \<noteq> CHR ''0'' \<Longrightarrow> 0 < of_char d - (48::nat)" by blast+
qed

lemma digits_value_ge: "acc \<le> digits_value acc ds"
proof (induction ds arbitrary: acc)
  case Nil
  show ?case by simp
next
  case (Cons c cs)
  have "acc \<le> acc * 10 + (of_char c - 48)" by simp
  also have "\<dots> \<le> digits_value (acc * 10 + (of_char c - 48)) cs" by (rule Cons.IH)
  finally show ?case by simp
qed

lemma digits_value_pos:
  assumes "ds \<noteq> []" and "is_digit (hd ds)" and "hd ds \<noteq> CHR ''0''"
  shows "0 < digits_value 0 ds"
proof (cases ds)
  case Nil
  with assms(1) show ?thesis by simp
next
  case (Cons c cs)
  with assms have "0 < of_char c - (48::nat)" using digit_of_value(3) [of c] by simp
  also have "\<dots> \<le> digits_value (of_char c - 48) cs" by (rule digits_value_ge)
  finally show ?thesis by (simp add: Cons)
qed

lemma natural_text_unique: "natural_text n ds \<Longrightarrow> ds = decimal n"
proof (induction ds arbitrary: n rule: rev_induct)
  case Nil
  then show ?case by (simp add: natural_text_def)
next
  case (snoc d xs)
  from snoc.prems have dig: "list_all is_digit xs" "is_digit d"
    and val: "digits_value 0 xs * 10 + (of_char d - 48) = n"
    and lead: "hd (xs @ [d]) = CHR ''0'' \<Longrightarrow> xs = []"
    by (auto simp: natural_text_def digits_value_append split: if_splits)
  note d = digit_of_value [OF dig(2)]
  show ?case
  proof (cases "xs = []")
    case True
    with val d(1) have "n < 10" and "of_char d - (48::nat) = n" by simp_all
    then show ?thesis using d(2) True by (subst decimal.simps) simp
  next
    case False
    with lead have h: "hd xs \<noteq> CHR ''0''" by auto
    from False dig(1) have "is_digit (hd xs)" by (cases xs) simp_all
    from digits_value_pos [OF False this h] val d(1)
    have big: "\<not> n < 10" and q: "n div 10 = digits_value 0 xs"
      and r: "n mod 10 = of_char d - 48" by auto
    from False dig(1) h q have "natural_text (n div 10) xs" by (simp add: natural_text_def)
    then have "xs = decimal (n div 10)" by (rule snoc.IH)
    with big r d(2) show ?thesis by (subst decimal.simps) simp
  qed
qed

lemma decimal_string_unique:
  assumes "decimal_string R n w"
  shows "w = Number_toString R n"
proof (cases n)
  case (Fin x)
  show ?thesis
  proof (cases "safe_integer x")
    case True
    then have x: "x = of_int \<lfloor>x\<rfloor>" by (simp add: safe_integer_def)
    have neg: "x < 0 \<longleftrightarrow> \<lfloor>x\<rfloor> < 0" by (subst x) simp
    from assms True have it: "integer_text \<lfloor>x\<rfloor> w" by (simp add: Fin)
    show ?thesis
    proof (cases "\<lfloor>x\<rfloor> < 0")
      case True
      with it obtain ds where w: "w = CHR ''-'' # ds" and nt: "natural_text (nat (- \<lfloor>x\<rfloor>)) ds"
        by (auto simp: integer_text_def split: list.splits)
      have ds: "ds = decimal (nat (- \<lfloor>x\<rfloor>))" using nt by (rule natural_text_unique)
      from True neg have "x < 0" by blast
      then have "Number_toString R (Fin x) = CHR ''-'' # decimal (nat (- \<lfloor>x\<rfloor>))"
        using \<open>safe_integer x\<close> by (simp add: Number_toString_def)
      then show ?thesis by (simp only: Fin w ds)
    next
      case False
      with it have nt: "natural_text (nat \<lfloor>x\<rfloor>) w" by (simp add: integer_text_def)
      have w: "w = decimal (nat \<lfloor>x\<rfloor>)" using nt by (rule natural_text_unique)
      from False neg have "\<not> x < 0" by blast
      then have "Number_toString R (Fin x) = decimal (nat \<lfloor>x\<rfloor>)"
        using \<open>safe_integer x\<close> by (simp add: Number_toString_def)
      then show ?thesis by (simp only: Fin w)
    qed
  next
    case False
    with assms show ?thesis by (simp add: Fin Number_toString_def)
  qed
qed (use assms in \<open>simp_all add: Number_toString_def\<close>)

lemma constructor_declared_type: "declared_type c (field c (self (constructor cfg rnd)))"
  by (cases c) (simp_all add: constructor_def)

lemma GET_self: "self (GET R c s) = s"
  by (simp add: GET_def Let_def emit_def throw_def split: sum.splits)

lemma GET_publishes: "publishes (trace (GET R c s)) = []"
  by (simp add: GET_def Let_def emit_def throw_def publishes_append split: sum.splits)

lemma GET_returned: "raised (GET R c s) = None \<Longrightarrow> returned (trace (GET R c s)) = [field c s]"
  by (simp add: GET_def Let_def emit_def throw_def returned_append split: sum.splits)

lemma step_differs:
  assumes "block_step R c r r'" and "p \<in> set (pushes (trace r'))"
  shows "p \<in> set (pushes (trace r)) \<or>
         (fst p = c \<and> IsLooselyEqual R (fst (snd p)) (field c (self r)) = Inr False)"
  using step_pushes [OF assms(1)] assms(2) by auto

lemma composite_branch_differs:
  assumes "p \<in> set (pushes (trace (composite_branch R m r)))"
  shows "p \<in> set (pushes (trace r)) \<or>
         IsLooselyEqual R (fst (snd p)) (field (fst p) (self r)) = Inr False"
proof -
  let ?r1 = "brightness_block R m r"
  let ?r2 = "color_temperature_block R m ?r1"
  let ?r3 = "hue_block R m ?r2"
  let ?r4 = "saturation_block R m ?r3"
  note s1 = brightness_block_step [of R r m]
  note s2 = color_temperature_block_step [of R ?r1 m]
  note s3 = hue_block_step [of R ?r2 m]
  note s4 = saturation_block_step [of R ?r3 m]
  have f2: "field ColorTemperature (self ?r1) = field ColorTemperature (self r)"
    using step_frame [OF s1, of ColorTemperature] by simp
  have f3: "field Hue (self ?r2) = field Hue (self r)"
    using step_frame [OF s1, of Hue] step_frame [OF s2, of Hue] by simp
  have f4: "field Saturation (self ?r3) = field Saturation (self r)"
    using step_frame [OF s1, of Saturation] step_frame [OF s2, of Saturation]
      step_frame [OF s3, of Saturation] by simp
  from assms have p4: "p \<in> set (pushes (trace ?r4))" by (simp add: composite_branch_def)
  from step_differs [OF s4 p4] f4 consider
      (sat) "fst p = Saturation" "IsLooselyEqual R (fst (snd p)) (field (fst p) (self r)) = Inr False"
    | (before) "p \<in> set (pushes (trace ?r3))" by auto
  then show ?thesis
  proof cases
    case sat then show ?thesis by simp
  next
    case before
    from step_differs [OF s3 before] f3 consider
        (hue) "fst p = Hue" "IsLooselyEqual R (fst (snd p)) (field (fst p) (self r)) = Inr False"
      | (before3) "p \<in> set (pushes (trace ?r2))" by auto
    then show ?thesis
    proof cases
      case hue then show ?thesis by simp
    next
      case before3
      from step_differs [OF s2 before3] f2 consider
          (ct) "fst p = ColorTemperature"
            "IsLooselyEqual R (fst (snd p)) (field (fst p) (self r)) = Inr False"
        | (before2) "p \<in> set (pushes (trace ?r1))" by auto
      then show ?thesis
      proof cases
        case ct then show ?thesis by simp
      next
        case before2
        from step_differs [OF s1 before2] show ?thesis by auto
      qed
    qed
  qed
qed

lemma only_dimmer:
  assumes "JSON_parse R m = Some (JObj [(''Dimmer'', JNum (Fin n))])"
  shows "parsed_member R m ''Dimmer'' = Inr (JNum (Fin n))"
    and "parsed_member R m ''CT'' = Inr JUndefined"
    and "parsed_member R m ''HSBColor'' = Inr JUndefined"
  using assms by (simp_all add: parsed_member_def)

lemma agree_power: "agree r r' \<Longrightarrow> agree (power_branch m r) (power_branch m r')"
  by (simp add: agree_def power_branch_def emit_def device_state_def Let_def)

lemma agree_brightness: "agree r r' \<Longrightarrow> agree (brightness_block R m r) (brightness_block R m r')"
  by (auto simp: agree_def brightness_block_def emit_def throw_def device_state_def Let_def
      split: sum.splits)

lemma agree_color_temperature:
  "agree r r' \<Longrightarrow> agree (color_temperature_block R m r) (color_temperature_block R m r')"
  by (auto simp: agree_def color_temperature_block_def emit_def throw_def device_state_def Let_def
      split: sum.splits)

lemma agree_hue: "agree r r' \<Longrightarrow> agree (hue_block R m r) (hue_block R m r')"
  by (auto simp: agree_def hue_block_def emit_def throw_def device_state_def Let_def
      split: sum.splits)

lemma agree_saturation: "agree r r' \<Longrightarrow> agree (saturation_block R m r) (saturation_block R m r')"
  by (auto simp: agree_def saturation_block_def emit_def throw_def device_state_def Let_def
      split: sum.splits)

lemma agree_on_message:
  assumes "config a = config b" and "device_state a = device_state b"
  shows "agree (on_message R t m a) (on_message R t m b)"
proof -
  have "agree \<lparr> self = a, trace = [LogInfo [m, t]], raised = None \<rparr>
              \<lparr> self = b, trace = [LogInfo [m, t]], raised = None \<rparr>"
    using assms by (simp add: agree_def)
  then show ?thesis
    using assms(1)
    by (auto simp: on_message_def composite_branch_def Let_def
        intro!: agree_power agree_brightness agree_color_temperature agree_hue agree_saturation)
qed

lemma same_field: "device_state a = device_state b \<Longrightarrow> field c a = field c b"
  by (cases c) (simp_all add: device_state_def)

lemma device_state_assign:
  "device_state a = device_state b \<Longrightarrow> device_state (assign c v a) = device_state (assign c v b)"
  by (cases c) (simp_all add: device_state_def)

lemma agree_GET:
  assumes "config a = config b" and "device_state a = device_state b"
  shows "agree (GET R c a) (GET R c b)"
  using assms same_field [OF assms(2), of c]
  by (simp add: agree_def GET_def Let_def emit_def throw_def split: sum.splits del: field.simps)

lemma agree_SET:
  assumes "config a = config b" and "device_state a = device_state b"
  shows "agree (SET R c v ctx a) (SET R c v ctx b)"
  using assms same_field [OF assms(2), of c] device_state_assign [OF assms(2), of c v]
  by (simp add: agree_def SET_def Let_def emit_def throw_def config_assign field_assign_same
      split: sum.splits del: field.simps assign.simps)

section \<open>The claims\<close>

subsection \<open>C1: echo suppression\<close>

text \<open>
  \<^bold>\<open>C1.\<close> Whatever the topic and the payload, the message handler publishes nothing to
  MQTT. Every channel whose mirror value the message changed has been pushed to the host
  with its new value and the context \<^verbatim>\<open>'fromSetValue'\<close>, and every push the handler makes
  carries that context. In the other direction, a SET whose context is \<^verbatim>\<open>'fromSetValue'\<close>
  publishes nothing, for every channel, value and mirror state.
\<close>

theorem echo_suppression:
  "publishes (trace (on_message R topic message that)) = [] \<and>
   (\<forall>c. field c (self (on_message R topic message that)) \<noteq> field c that \<longrightarrow>
        (c, field c (self (on_message R topic message that)), fromSetValue)
          \<in> set (pushes (trace (on_message R topic message that)))) \<and>
   (\<forall>p \<in> set (pushes (trace (on_message R topic message that))). snd (snd p) = fromSetValue) \<and>
   publishes (trace (SET R c v fromSetValue this)) = []"
  using on_message_publishes on_message_echo on_message_tagged tagged_SET_publishes by blast

text \<open>
  A run of C1: \<^verbatim>\<open>ON\<close> on the power topic of a new accessory changes power, pushes
  \<^verbatim>\<open>true\<close> with the tag and publishes nothing.
\<close>

theorem echo_suppression_witness:
  "field On (self (on_message bench ''stat/bulb/POWER'' ''ON'' fresh)) \<noteq> field On fresh \<and>
   (On, JBool True, fromSetValue)
     \<in> set (pushes (trace (on_message bench ''stat/bulb/POWER'' ''ON'' fresh))) \<and>
   publishes (trace (on_message bench ''stat/bulb/POWER'' ''ON'' fresh)) = []"
  using echo_suppression [of bench "''stat/bulb/POWER''" "''ON''" fresh]
  by (simp add: handler_defs bench_defs)

subsection \<open>C2: a payload that is not JSON\<close>

text \<open>
  C2 says that such a message is handled without raising. The handler has no \<^verbatim>\<open>try\<close>
  around \<^verbatim>\<open>JSON.parse\<close>: on the composite topic the payload \<^verbatim>\<open>{not json\<close> ends the
  handler with the \<^verbatim>\<open>SyntaxError\<close>.
\<close>

theorem malformed_json_counterexample:
  "JSON_parse bench ''{not json'' = None \<and>
   raised (on_message bench ''stat/bulb/RESULT'' ''{not json'' fresh) = Some SyntaxError"
  by (simp add: handler_defs bench_defs parse_defs)

text \<open>
  \<^bold>\<open>C2, amended.\<close> For a message on the composite topic, this topic not being the power
  topic as well, whose payload \<^verbatim>\<open>JSON.parse\<close> rejects: the handler makes no push and no
  publish, leaves the object and with it all five channels as they were, logs the payload
  line and nothing else, and ends by raising the \<^verbatim>\<open>SyntaxError\<close> to its caller.
\<close>

theorem malformed_json_raises:
  assumes "topic = getRes (topics (config that))"
    and "topic \<noteq> getOn (topics (config that))"
    and "JSON_parse R message = None"
  shows "on_message R topic message that =
           \<lparr> self = that, trace = [LogInfo [message, topic]], raised = Some SyntaxError \<rparr>"
  using assms
  by (simp add: on_message_def composite_branch_def brightness_block_def
      color_temperature_block_def hue_block_def saturation_block_def parsed_member_def throw_def)

text \<open>
  A run of the amended C2 on the payload \<^verbatim>\<open>{not json\<close>.
\<close>

theorem malformed_json_raises_witness:
  "''stat/bulb/RESULT'' = getRes (topics (config fresh)) \<and>
   ''stat/bulb/RESULT'' \<noteq> getOn (topics (config fresh)) \<and>
   JSON_parse bench ''{not json'' = None \<and>
   on_message bench ''stat/bulb/RESULT'' ''{not json'' fresh =
     \<lparr> self = fresh, trace = [LogInfo [''{not json'', ''stat/bulb/RESULT'']],
       raised = Some SyntaxError \<rparr>"
proof -
  have a: "''stat/bulb/RESULT'' = getRes (topics (config fresh))"
    and b: "''stat/bulb/RESULT'' \<noteq> getOn (topics (config fresh))"
    and c: "JSON_parse bench ''{not json'' = None"
    by (simp_all add: bench_defs parse_defs)
  show ?thesis using a b c malformed_json_raises [OF a b c] by simp
qed

subsection \<open>C3: a SET from the host\<close>

text \<open>
  \<^bold>\<open>C3.\<close> A SET whose context is not the echo tag writes its value into the mirror slot of
  the channel, publishes exactly once and completes, and the GET of the channel that
  follows returns the value. For power and a boolean \<open>b\<close> the publish goes to the
  \<^verbatim>\<open>setOn\<close> topic and carries \<^verbatim>\<open>ON\<close> or \<^verbatim>\<open>OFF\<close>. For a number \<open>n\<close> whose decimal string is
  \<open>w\<close>, the publish carries \<open>w\<close> and goes to the \<^verbatim>\<open>setBrightness\<close> topic for brightness,
  \<^verbatim>\<open>setColorTemp\<close> for colour temperature, \<^verbatim>\<open>setHue\<close> for hue and \<^verbatim>\<open>setSat\<close> for
  saturation; every number has a decimal string. In particular the decimal string of 75
  is \<^verbatim>\<open>75\<close>: the SET of brightness to 75 publishes \<^verbatim>\<open>75\<close> once to the \<^verbatim>\<open>setBrightness\<close>
  topic, and the GET returns 75.
\<close>

theorem local_set_round_trip:
  assumes "context \<noteq> fromSetValue"
  shows "set_then_get R On (JBool b) context this =
           (this\<lparr>lightbulbOn := JBool b\<rparr>,
            [(setOn (topics (config this)), if b then ''ON'' else ''OFF'')],
            None, [JBool b], None) \<and>
         (decimal_string R n w \<longrightarrow>
            set_then_get R Brightness (JNum n) context this =
              (this\<lparr>lightbulbBrightness := JNum n\<rparr>,
               [(setBrightness (topics (config this)), w)], None, [JNum n], None) \<and>
            set_then_get R ColorTemperature (JNum n) context this =
              (this\<lparr>lightbulbColorTemp := JNum n\<rparr>,
               [(setColorTemp (topics (config this)), w)], None, [JNum n], None) \<and>
            set_then_get R Hue (JNum n) context this =
              (this\<lparr>lightbulbHue := JNum n\<rparr>,
               [(setHue (topics (config this)), w)], None, [JNum n], None) \<and>
            set_then_get R Saturation (JNum n) context this =
              (this\<lparr>lightbulbSat := JNum n\<rparr>,
               [(setSat (topics (config this)), w)], None, [JNum n], None)) \<and>
         (\<exists>w'. decimal_string R n w') \<and>
         decimal_string R (Fin 75) ''75'' \<and>
         set_then_get R Brightness (JNum (Fin 75)) context this =
           (this\<lparr>lightbulbBrightness := JNum (Fin 75)\<rparr>,
            [(setBrightness (topics (config this)), ''75'')], None, [JNum (Fin 75)], None)"
proof -
  have seventy_five: "Number_toString R (Fin 75) = ''75''"
    by (simp add: Number_toString_def safe_integer_def decimal.simps)
  have "decimal_string R (Fin 75) ''75''"
    using decimal_string_Number_toString [of R "Fin 75"] by (simp only: seventy_five)
  moreover have "\<exists>w'. decimal_string R n w'"
    using decimal_string_Number_toString by blast
  moreover have "set_then_get R c (JNum n) context this =
      (assign c (JNum n) this, [(set_topic (topics (config this)) c, w)], None, [JNum n], None)"
    if "decimal_string R n w" and "c \<noteq> On" for c
    using set_then_get_number [OF assms that(2), of R n this] decimal_string_unique [OF that(1)]
    by simp
  from this [of Brightness] this [of ColorTemperature] this [of Hue] this [of Saturation]
  have "decimal_string R n w \<longrightarrow>
            set_then_get R Brightness (JNum n) context this =
              (this\<lparr>lightbulbBrightness := JNum n\<rparr>,
               [(setBrightness (topics (config this)), w)], None, [JNum n], None) \<and>
            set_then_get R ColorTemperature (JNum n) context this =
              (this\<lparr>lightbulbColorTemp := JNum n\<rparr>,
               [(setColorTemp (topics (config this)), w)], None, [JNum n], None) \<and>
            set_then_get R Hue (JNum n) context this =
              (this\<lparr>lightbulbHue := JNum n\<rparr>,
               [(setHue (topics (config this)), w)], None, [JNum n], None) \<and>
            set_then_get R Saturation (JNum n) context this =
              (this\<lparr>lightbulbSat := JNum n\<rparr>,
               [(setSat (topics (config this)), w)], None, [JNum n], None)"
    by simp
  moreover have "set_then_get R Brightness (JNum (Fin 75)) context this =
           (this\<lparr>lightbulbBrightness := JNum (Fin 75)\<rparr>,
            [(setBrightness (topics (config this)), ''75'')], None, [JNum (Fin 75)], None)"
    using set_then_get_number [OF assms, of Brightness R "Fin 75" this]
    by (simp add: seventy_five)
  ultimately show ?thesis using set_then_get_power [OF assms, of R b this] by blast
qed

text \<open>
  A run of C3 on a new accessory: power on, hue and colour temperature 120, and
  brightness 75, each published to the topic configured for it.
\<close>

theorem local_set_round_trip_witness:
  "JUndefined \<noteq> fromSetValue \<and>
   set_then_get bench On (JBool True) JUndefined fresh =
     (fresh\<lparr>lightbulbOn := JBool True\<rparr>, [(''cmnd/bulb/POWER'', ''ON'')], None,
      [JBool True], None) \<and>
   decimal_string bench (Fin 120) ''120'' \<and>
   set_then_get bench Hue (JNum (Fin 120)) JUndefined fresh =
     (fresh\<lparr>lightbulbHue := JNum (Fin 120)\<rparr>, [(''cmnd/bulb/HSBColor1'', ''120'')], None,
      [JNum (Fin 120)], None) \<and>
   set_then_get bench ColorTemperature (JNum (Fin 120)) JUndefined fresh =
     (fresh\<lparr>lightbulbColorTemp := JNum (Fin 120)\<rparr>, [(''cmnd/bulb/CT'', ''120'')], None,
      [JNum (Fin 120)], None) \<and>
   set_then_get bench Brightness (JNum (Fin 75)) JUndefined fresh =
     (fresh\<lparr>lightbulbBrightness := JNum (Fin 75)\<rparr>, [(''cmnd/bulb/Dimmer'', ''75'')], None,
      [JNum (Fin 75)], None)"
proof -
  have a: "JUndefined \<noteq> fromSetValue" by (simp add: fromSetValue_def)
  have d: "decimal_string bench (Fin 120) ''120''"
    by (simp add: safe_integer_def integer_text_def natural_text_def is_digit_def)
  have t: "setOn (topics (config fresh)) = ''cmnd/bulb/POWER''"
    "setHue (topics (config fresh)) = ''cmnd/bulb/HSBColor1''"
    "setColorTemp (topics (config fresh)) = ''cmnd/bulb/CT''"
    "setBrightness (topics (config fresh)) = ''cmnd/bulb/Dimmer''"
    by (simp_all add: bench_defs)
  from local_set_round_trip [OF a, of bench True fresh "Fin 120" "''120''"] d
  show ?thesis unfolding t using a by simp
qed

subsection \<open>C4: the power topic\<close>

text \<open>
  \<^bold>\<open>C4.\<close> After a message on the power topic the power mirror is the boolean
  \<^verbatim>\<open>payload == "ON"\<close>, for every payload. When the power topic is not the composite topic
  as well, the message yields exactly one update, the push of that boolean to the power
  characteristic, and leaves the four other channels unchanged.
\<close>

theorem power_topic:
  assumes "topic = getOn (topics (config that))"
  shows "lightbulbOn (self (on_message R topic message that)) = JBool (message = ''ON'') \<and>
         (topic \<noteq> getRes (topics (config that)) \<longrightarrow>
            on_message R topic message that =
              \<lparr> self = that\<lparr>lightbulbOn := JBool (message = ''ON'')\<rparr>,
                trace = [LogInfo [message, topic], SetValue On (JBool (message = ''ON'')) fromSetValue],
                raised = None \<rparr>)"
  using assms on_message_power [OF assms]
  by (simp add: on_message_def power_branch_def emit_def Let_def)

text \<open>
  A run of C4: \<^verbatim>\<open>ON\<close> gives true with one push, \<^verbatim>\<open>off\<close> gives false.
\<close>

theorem power_topic_witness:
  "''stat/bulb/POWER'' = getOn (topics (config fresh)) \<and>
   ''stat/bulb/POWER'' \<noteq> getRes (topics (config fresh)) \<and>
   lightbulbOn (self (on_message bench ''stat/bulb/POWER'' ''ON'' fresh)) = JBool True \<and>
   pushes (trace (on_message bench ''stat/bulb/POWER'' ''ON'' fresh)) = [(On, JBool True, fromSetValue)] \<and>
   lightbulbOn (self (on_message bench ''stat/bulb/POWER'' ''off'' fresh)) = JBool False"
proof -
  have a: "''stat/bulb/POWER'' = getOn (topics (config fresh))"
    and b: "''stat/bulb/POWER'' \<noteq> getRes (topics (config fresh))"
    by (simp_all add: bench_defs)
  show ?thesis
    using a b power_topic [OF a, of bench "''ON''"] power_topic [OF a, of bench "''off''"]
    by simp
qed

subsection \<open>C5: an update only on a change\<close>

text \<open>
  \<^bold>\<open>C5.\<close> On the composite topic, this topic not being the power topic as well, every
  update the handler emits carries a value that is not loosely equal (\<^verbatim>\<open>!=\<close>) to the value
  the mirror held for that channel. A payload that parses to the object with the single
  member \<^verbatim>\<open>Dimmer\<close> of value \<open>n\<close>, on a mirror whose brightness is another number \<open>b\<close>,
  emits exactly one update, brightness to \<open>n\<close>, and none for hue, saturation or colour
  temperature; the same payload processed again emits no update and leaves the mirror
  unchanged. The case of the specification is \<^verbatim>\<open>{"Dimmer": 42}\<close> on brightness 10.
\<close>

theorem update_only_on_change:
  assumes "topic = getRes (topics (config that))"
    and "topic \<noteq> getOn (topics (config that))"
  shows "(\<forall>p \<in> set (pushes (trace (on_message R topic message that))).
            IsLooselyEqual R (fst (snd p)) (field (fst p) that) = Inr False) \<and>
         (JSON_parse R message = Some (JObj [(''Dimmer'', JNum (Fin n))]) \<and>
          lightbulbBrightness that = JNum (Fin b) \<and> b \<noteq> n \<longrightarrow>
            on_message R topic message that =
              \<lparr> self = that\<lparr>lightbulbBrightness := JNum (Fin n)\<rparr>,
                trace = [LogInfo [message, topic], SetValue Brightness (JNum (Fin n)) fromSetValue],
                raised = None \<rparr> \<and>
            on_message R topic message (that\<lparr>lightbulbBrightness := JNum (Fin n)\<rparr>) =
              \<lparr> self = that\<lparr>lightbulbBrightness := JNum (Fin n)\<rparr>,
                trace = [LogInfo [message, topic]],
                raised = None \<rparr>)"
proof (intro conjI ballI impI; (elim conjE)?)
  fix p assume "p \<in> set (pushes (trace (on_message R topic message that)))"
  then have "p \<in> set (pushes (trace (composite_branch R message
                \<lparr> self = that, trace = [LogInfo [message, topic]], raised = None \<rparr>)))"
    using assms by (simp add: on_message_def)
  from composite_branch_differs [OF this]
  show "IsLooselyEqual R (fst (snd p)) (field (fst p) that) = Inr False" by simp
next
  assume parse: "JSON_parse R message = Some (JObj [(''Dimmer'', JNum (Fin n))])"
    and prior: "lightbulbBrightness that = JNum (Fin b)" and differ: "b \<noteq> n"
  note members = only_dimmer [OF parse]
  show "on_message R topic message that =
          \<lparr> self = that\<lparr>lightbulbBrightness := JNum (Fin n)\<rparr>,
            trace = [LogInfo [message, topic], SetValue Brightness (JNum (Fin n)) fromSetValue],
            raised = None \<rparr>"
    using assms prior differ
    by (simp add: on_message_def composite_branch_def brightness_block_def
        color_temperature_block_def hue_block_def saturation_block_def members
        IsLooselyEqual_def loosely_equal_primitives_def Number_equal_def emit_def)
  show "on_message R topic message (that\<lparr>lightbulbBrightness := JNum (Fin n)\<rparr>) =
          \<lparr> self = that\<lparr>lightbulbBrightness := JNum (Fin n)\<rparr>,
            trace = [LogInfo [message, topic]], raised = None \<rparr>"
    using assms
    by (simp add: on_message_def composite_branch_def brightness_block_def
        color_temperature_block_def hue_block_def saturation_block_def members
        IsLooselyEqual_def loosely_equal_primitives_def Number_equal_def emit_def)
qed

text \<open>
  A run of C5 on the payload \<^verbatim>\<open>{"Dimmer": 42}\<close> with brightness 10 before.
\<close>

theorem update_only_on_change_witness:
  "''stat/bulb/RESULT'' = getRes (topics (config (fresh\<lparr>lightbulbBrightness := JNum (Fin 10)\<rparr>))) \<and>
   ''stat/bulb/RESULT'' \<noteq> getOn (topics (config (fresh\<lparr>lightbulbBrightness := JNum (Fin 10)\<rparr>))) \<and>
   JSON_parse bench ''{\"Dimmer\": 42}'' = Some (JObj [(''Dimmer'', JNum (Fin 42))]) \<and>
   lightbulbBrightness (fresh\<lparr>lightbulbBrightness := JNum (Fin 10)\<rparr>) = JNum (Fin 10) \<and>
   (10::rat) \<noteq> 42 \<and>
   pushes (trace (on_message bench ''stat/bulb/RESULT'' ''{\"Dimmer\": 42}''
                   (fresh\<lparr>lightbulbBrightness := JNum (Fin 10)\<rparr>))) =
     [(Brightness, JNum (Fin 42), fromSetValue)] \<and>
   pushes (trace (on_message bench ''stat/bulb/RESULT'' ''{\"Dimmer\": 42}''
                   (fresh\<lparr>lightbulbBrightness := JNum (Fin 42)\<rparr>))) = [] \<and>
   self (on_message bench ''stat/bulb/RESULT'' ''{\"Dimmer\": 42}''
          (fresh\<lparr>lightbulbBrightness := JNum (Fin 42)\<rparr>)) =
     fresh\<lparr>lightbulbBrightness := JNum (Fin 42)\<rparr>"
proof -
  let ?s = "fresh\<lparr>lightbulbBrightness := JNum (Fin 10)\<rparr>"
  have a: "''stat/bulb/RESULT'' = getRes (topics (config ?s))"
    and b: "''stat/bulb/RESULT'' \<noteq> getOn (topics (config ?s))"
    by (simp_all add: bench_defs)
  have c: "JSON_parse bench ''{\"Dimmer\": 42}'' = Some (JObj [(''Dimmer'', JNum (Fin 42))])"
    by (simp add: bench_def parse_defs)
  have d: "lightbulbBrightness ?s = JNum (Fin 10)" and e: "(10::rat) \<noteq> 42" by simp_all
  from update_only_on_change [OF a b, of bench "''{\"Dimmer\": 42}''" 42 10] c d e
  have "on_message bench ''stat/bulb/RESULT'' ''{\"Dimmer\": 42}'' ?s =
          \<lparr> self = ?s\<lparr>lightbulbBrightness := JNum (Fin 42)\<rparr>,
            trace = [LogInfo [''{\"Dimmer\": 42}'', ''stat/bulb/RESULT''],
                     SetValue Brightness (JNum (Fin 42)) fromSetValue],
            raised = None \<rparr>"
    and "on_message bench ''stat/bulb/RESULT'' ''{\"Dimmer\": 42}'' (?s\<lparr>lightbulbBrightness := JNum (Fin 42)\<rparr>) =
          \<lparr> self = ?s\<lparr>lightbulbBrightness := JNum (Fin 42)\<rparr>,
            trace = [LogInfo [''{\"Dimmer\": 42}'', ''stat/bulb/RESULT'']], raised = None \<rparr>"
    by blast+
  then show ?thesis using a b c d e by simp
qed

subsection \<open>C6: the components of HSBColor\<close>

text \<open>
  \<^bold>\<open>C6\<close> says that the payload \<^verbatim>\<open>{"HSBColor":"120,50,80"}\<close> sets the hue mirror to 120
  and the saturation mirror to 50. The handler emits the two updates, hue from the first
  component and saturation from the second, but \<^verbatim>\<open>split\<close> yields strings and
  \<^verbatim>\<open>as number\<close> converts nothing: the mirror then holds the strings \<^verbatim>\<open>"120"\<close> and
  \<^verbatim>\<open>"50"\<close>, not the numbers, and these strings are what is pushed to the host.
\<close>

theorem hsbcolor_components_are_strings:
  "on_message bench ''stat/bulb/RESULT'' ''{\"HSBColor\":\"120,50,80\"}'' fresh =
     \<lparr> self = fresh\<lparr>lightbulbHue := JStr ''120'', lightbulbSat := JStr ''50''\<rparr>,
       trace = [LogInfo [''{\"HSBColor\":\"120,50,80\"}'', ''stat/bulb/RESULT''],
                SetValue Hue (JStr ''120'') fromSetValue,
                SetValue Saturation (JStr ''50'') fromSetValue],
       raised = None \<rparr> \<and>
   JStr ''120'' \<noteq> JNum (Fin 120) \<and> JStr ''50'' \<noteq> JNum (Fin 50)"
  by (simp add: handler_defs bench_defs parse_defs fromSetValue_def)

subsection \<open>C7: a SET that carries the echo tag\<close>

text \<open>
  C7 says that a SET carrying the echo tag writes its value into the mirror. The write
  is inside the test \<^verbatim>\<open>context !== 'fromSetValue'\<close>, together with the publish: a tagged
  SET of brightness 75 on a new accessory leaves the brightness at 0.
\<close>

theorem tagged_set_counterexample:
  "lightbulbBrightness (self (SET bench Brightness (JNum (Fin 75)) fromSetValue fresh)) \<noteq> JNum (Fin 75)"
  by (simp add: handler_defs bench_defs decimal.simps)

text \<open>
  \<^bold>\<open>C7, amended.\<close> For every channel and every value, a SET whose context is the echo tag
  leaves the object, and so every mirror slot, as it was (the message handler wrote the
  slot before it pushed) and publishes nothing.
\<close>

theorem tagged_set_leaves_mirror:
  "self (SET R c v fromSetValue this) = this \<and>
   publishes (trace (SET R c v fromSetValue this)) = []"
  by (simp add: SET_def Let_def emit_def throw_def split: sum.splits)

text \<open>
  A run of the amended C7: the tagged SET of brightness 75 on a new accessory.
\<close>

theorem tagged_set_leaves_mirror_witness:
  "self (SET bench Brightness (JNum (Fin 75)) fromSetValue fresh) = fresh \<and>
   publishes (trace (SET bench Brightness (JNum (Fin 75)) fromSetValue fresh)) = []"
  using tagged_set_leaves_mirror [of bench Brightness "JNum (Fin 75)" fresh] by simp

subsection \<open>C8: every channel holds a value of its type\<close>

text \<open>
  \<^bold>\<open>C8\<close> holds after construction (\<open>constructor_declared_type\<close>): power is a boolean
  and the four others are numbers.
  It does not survive the message handler. On the payload \<^verbatim>\<open>{"HSBColor":"120"}\<close> the
  second component of the split is missing: the saturation mirror becomes undefined, and
  the hue mirror the string \<^verbatim>\<open>"120"\<close>.
\<close>

theorem short_hsbcolor_undefined_saturation:
  "device_state fresh = (JBool False, JNum (Fin 0), JNum (Fin 153), JNum (Fin 0), JNum (Fin 0)) \<and>
   device_state (self (on_message bench ''stat/bulb/RESULT'' ''{\"HSBColor\":\"120\"}'' fresh)) =
     (JBool False, JNum (Fin 0), JNum (Fin 153), JStr ''120'', JUndefined) \<and>
   declared_type Saturation JUndefined = False \<and> declared_type Hue (JStr ''120'') = False"
  by (simp add: handler_defs bench_defs parse_defs fromSetValue_def)

subsection \<open>C9: GET\<close>

text \<open>
  A GET never changes the object and never publishes (\<open>GET_self\<close>, \<open>GET_publishes\<close>), and
  when it completes it returns the mirror value (\<open>GET_returned\<close>). \<^bold>\<open>C9\<close> says in addition
  that it always succeeds. The GET of a numeric channel first concatenates the field into
  its log line. After the payloads \<^verbatim>\<open>{"Dimmer":{}}\<close> and \<^verbatim>\<open>{"Dimmer":{"toString":1}}\<close> the
  brightness mirror holds an object whose \<^verbatim>\<open>toString\<close> is not a function; the
  concatenation throws a \<^verbatim>\<open>TypeError\<close> and the callback is never called.
\<close>

theorem get_raises_on_stored_object:
  "self (on_message bench ''stat/bulb/RESULT'' ''{\"Dimmer\":{\"toString\":1}}''
          (self (on_message bench ''stat/bulb/RESULT'' ''{\"Dimmer\":{}}'' fresh))) =
     fresh\<lparr>lightbulbBrightness := JObj [(''toString'', JNum (Fin 1))]\<rparr> \<and>
   GET bench Brightness (fresh\<lparr>lightbulbBrightness := JObj [(''toString'', JNum (Fin 1))]\<rparr>) =
     \<lparr> self = fresh\<lparr>lightbulbBrightness := JObj [(''toString'', JNum (Fin 1))]\<rparr>,
       trace = [], raised = Some TypeError \<rparr>"
  by (simp add: handler_defs bench_defs parse_defs fromSetValue_def)

subsection \<open>C10: the handlers are deterministic\<close>

text \<open>
  \<^bold>\<open>C10.\<close> The outcome of a handler depends on the configuration, the five mirror values
  and the handler's arguments only. Two accessory objects with the same configuration and
  the same device state, whatever their other fields (the client identifier is drawn from
  \<^verbatim>\<open>Math.random\<close>), give for the same topic and payload the same calls in the same order,
  the same exception or none, and the same device state afterwards; and likewise for a GET
  on the same channel and a SET with the same channel, value and context.
\<close>

theorem handlers_deterministic:
  assumes "config a = config b" and "device_state a = device_state b"
  shows "trace (on_message R topic message a) = trace (on_message R topic message b) \<and>
         raised (on_message R topic message a) = raised (on_message R topic message b) \<and>
         device_state (self (on_message R topic message a)) =
           device_state (self (on_message R topic message b)) \<and>
         trace (GET R c a) = trace (GET R c b) \<and>
         raised (GET R c a) = raised (GET R c b) \<and>
         device_state (self (GET R c a)) = device_state (self (GET R c b)) \<and>
         trace (SET R c v context a) = trace (SET R c v context b) \<and>
         raised (SET R c v context a) = raised (SET R c v context b) \<and>
         device_state (self (SET R c v context a)) = device_state (self (SET R c v context b))"
  using agree_on_message [OF assms, of R topic message] agree_GET [OF assms, of R c]
    agree_SET [OF assms, of R c v "context"]
  by (simp add: agree_def)

text \<open>
  A run of C10: two accessories constructed with different random client identifiers.
\<close>

theorem handlers_deterministic_witness:
  "config (self (constructor bulb ''1a2b3c4d'')) = config (self (constructor bulb ''99887766'')) \<and>
   device_state (self (constructor bulb ''1a2b3c4d'')) =
     device_state (self (constructor bulb ''99887766'')) \<and>
   self (constructor bulb ''1a2b3c4d'') \<noteq> self (constructor bulb ''99887766'') \<and>
   trace (on_message bench ''stat/bulb/POWER'' ''ON'' (self (constructor bulb ''1a2b3c4d''))) =
     trace (on_message bench ''stat/bulb/POWER'' ''ON'' (self (constructor bulb ''99887766''))) \<and>
   device_state (self (on_message bench ''stat/bulb/POWER'' ''ON'' (self (constructor bulb ''1a2b3c4d'')))) =
     device_state (self (on_message bench ''stat/bulb/POWER'' ''ON'' (self (constructor bulb ''99887766''))))"
proof -
  have a: "config (self (constructor bulb ''1a2b3c4d'')) = config (self (constructor bulb ''99887766''))"
    and b: "device_state (self (constructor bulb ''1a2b3c4d'')) =
            device_state (self (constructor bulb ''99887766''))"
    and c: "self (constructor bulb ''1a2b3c4d'') \<noteq> self (constructor bulb ''99887766'')"
    by (simp_all add: constructor_def device_state_def)
  note d = handlers_deterministic [OF a b, of bench "''stat/bulb/POWER''" "''ON''"]
  show ?thesis
    by (intro conjI a b c conjunct1 [OF d] conjunct1 [OF conjunct2 [OF conjunct2 [OF d]]])
qed

end
